theory Spec2Isabelle
  imports Complex_Main "HOL-Library.Sublist"
begin

section \<open>Values and records of the playground\<close>

text \<open>
  The value that \<^verbatim>\<open>JSON.parse\<close> produces, which the source types as \<^verbatim>\<open>unknown\<close>:
  an object is the list of its own properties in key order. No function of the module
  looks at the payload of a number. A string is the list of its characters, and two
  strings are equal when they have the same characters in the same order.
\<close>

datatype json =
    JNull
  | JBoolean bool
  | JNumber real
  | JString string
  | JArray "json list"
  | JObject "(string \<times> json) list"

text \<open>
  The result of \<^verbatim>\<open>safelyParseJSON\<close>: \<^verbatim>\<open>{ json, parseError }\<close>. The transformer only
  tests \<^verbatim>\<open>parseError\<close> for truthiness; an error object is truthy, an absent one is not.
\<close>

datatype js_error = JsError string

record json_parse_result =
  json :: json
  parseError :: "js_error option"

text \<open>
  \<^verbatim>\<open>MessageSchema\<close>, an entry of \<^verbatim>\<open>llm.input_messages\<close> or \<^verbatim>\<open>llm.output_messages\<close>:
  \<^verbatim>\<open>{ message: { role: string, content: string } }\<close>.
\<close>

record message_attrs =
  role :: string
  content :: string

record message_schema =
  message :: message_attrs

text \<open>
  \<^verbatim>\<open>ChatMessage\<close>: \<^verbatim>\<open>{ id, role, content }\<close>. The fields carry the prefix \<open>chat_\<close>
  because \<open>role\<close> and \<open>content\<close> are the fields of the attribute message and \<open>id\<close> is
  the identity function of HOL. A \<^verbatim>\<open>ChatMessageRole\<close> is a string of a closed set, and
  the type of the identifier is left open.
\<close>

record 'i chat_message =
  chat_id :: 'i
  chat_role :: string
  chat_content :: string

text \<open>\<^verbatim>\<open>ModelConfig\<close>; a \<^verbatim>\<open>ModelProvider\<close> is a key of the provider table, a string.\<close>

record model_config =
  modelName :: string
  provider :: string

text \<open>
  The template is a tagged variant. The transformer builds the variant tagged
  \<^verbatim>\<open>"chat"\<close> only; whatever else the store defines stays opaque.
\<close>

datatype ('i, 't) playground_template =
    Chat "'i chat_message list"
  | OtherTemplate 't

text \<open>\<^verbatim>\<open>output\<close> is a list of chat messages, a string or \<^verbatim>\<open>undefined\<close>.\<close>

datatype 'i playground_output =
    OutputMessages "'i chat_message list"
  | OutputString string
  | OutputUndefined

text \<open>
  \<^verbatim>\<open>PlaygroundInstance\<close>: the three fields that the transformer writes. The fields that
  the store adds besides them live in the extension part of the record, which the object
  spread \<^verbatim>\<open>{ ...basePlaygroundInstance, model, template, output }\<close> carries over.
\<close>

record ('i, 't) playground_instance =
  model :: model_config
  template :: "('i, 't) playground_template"
  output' :: "'i playground_output"

text \<open>\<^verbatim>\<open>PlaygroundSpan\<close>: only \<^verbatim>\<open>attributes\<close> is read.\<close>

record playground_span =
  attributes :: string

section \<open>What the module imports\<close>

text \<open>
  The constants of \<^verbatim>\<open>./constants\<close> and \<^verbatim>\<open>@phoenix/constants/generativeConstants\<close> are
  parameters. The two tables are objects; each is the list of its entries in the order
  of \<^verbatim>\<open>Object.keys\<close>.
\<close>

record constants =
  ChatRoleMap :: "(string \<times> string list) list"
  modelProviderToModelPrefixMap :: "(string \<times> string list) list"
  DEFAULT_CHAT_ROLE :: string
  DEFAULT_MODEL_PROVIDER :: string
  INPUT_MESSAGES_PARSING_ERROR :: string
  MODEL_NAME_PARSING_ERROR :: string
  OUTPUT_MESSAGES_PARSING_ERROR :: string
  OUTPUT_VALUE_PARSING_ERROR :: string
  SPAN_ATTRIBUTES_PARSING_ERROR :: string

text \<open>
  The schemas of \<^verbatim>\<open>./schemas\<close> are parameters too. Each one stands for its
  \<^verbatim>\<open>safeParse\<close>: \<open>None\<close> is \<^verbatim>\<open>success: false\<close>, and \<open>Some d\<close> is \<^verbatim>\<open>success: true\<close> with
  \<open>d\<close> the part of \<^verbatim>\<open>data\<close> that the caller reads, namely
  \<^verbatim>\<open>data.llm.input_messages\<close>, \<^verbatim>\<open>data.llm.output_messages\<close>, \<^verbatim>\<open>data.output.value\<close> and
  \<^verbatim>\<open>data.llm.model_name\<close>. Of the role schema only \<^verbatim>\<open>success\<close> is read.
\<close>

record schemas =
  chatMessageRolesSchema :: "json \<Rightarrow> bool"
  llmInputMessageSchema :: "json \<Rightarrow> message_schema list option"
  llmOutputMessageSchema :: "json \<Rightarrow> message_schema list option"
  outputSchema :: "json \<Rightarrow> string option"
  modelNameSchema :: "json \<Rightarrow> string option"

text \<open>
  The two functions of \<^verbatim>\<open>@phoenix/store\<close> act on a state \<open>'s\<close> of the store that is
  passed through: each takes the state and returns its result with the next state.
\<close>

record ('s, 'i, 't, 'z) store =
  createPlaygroundInstance :: "'s \<Rightarrow> ('i, 't, 'z) playground_instance_scheme \<times> 's"
  generateMessageId :: "'s \<Rightarrow> 'i \<times> 's"

record ('s, 'i, 't, 'z) module_imports =
  constants :: constants
  schemas :: schemas
  store :: "('s, 'i, 't, 'z) store"
  safelyParseJSON :: "string \<Rightarrow> json_parse_result"

section \<open>The functions of \<^verbatim>\<open>playgroundUtils.ts\<close>\<close>

definition isChatMessageRole :: "('s, 'i, 't, 'z) module_imports \<Rightarrow> json \<Rightarrow> bool" where
  "isChatMessageRole I r = chatMessageRolesSchema (schemas I) r"

text \<open>
  The loop of \<^verbatim>\<open>getChatRole\<close> over \<^verbatim>\<open>Object.entries(ChatRoleMap)\<close>: \<open>Some\<close> is the
  \<^verbatim>\<open>return\<close> inside the loop, \<open>None\<close> is the loop running to its end.
\<close>

fun getChatRole_loop :: "(string \<times> string list) list \<Rightarrow> string \<Rightarrow> string option" where
  "getChatRole_loop [] r = None"
| "getChatRole_loop ((chatRole, acceptedValues) # rest) r =
     (if r \<in> set acceptedValues then Some chatRole else getChatRole_loop rest r)"

definition getChatRole :: "('s, 'i, 't, 'z) module_imports \<Rightarrow> string \<Rightarrow> string" where
  "getChatRole I r =
     (if isChatMessageRole I (JString r) then r
      else (case getChatRole_loop (ChatRoleMap (constants I)) r of
              Some chatRole \<Rightarrow> chatRole
            | None \<Rightarrow> DEFAULT_CHAT_ROLE (constants I)))"

text \<open>
  \<^verbatim>\<open>messages.map(...)\<close> calls \<^verbatim>\<open>generateMessageId\<close> once for each entry, from the first
  entry to the last.
\<close>

fun processAttributeMessagesToChatMessage ::
  "('s, 'i, 't, 'z) module_imports \<Rightarrow> message_schema list \<Rightarrow> 's \<Rightarrow> 'i chat_message list \<times> 's" where
  "processAttributeMessagesToChatMessage I [] s = ([], s)"
| "processAttributeMessagesToChatMessage I (m # ms) s =
     (let (i, s1) = generateMessageId (store I) s;
          c = \<lparr>chat_id = i,
               chat_role = getChatRole I (role (message m)),
               chat_content = content (message m)\<rparr>;
          (cs, s2) = processAttributeMessagesToChatMessage I ms s1
      in (c # cs, s2))"

record 'i template_messages_result =
  messageParsingErrors :: "string list"
  messages :: "'i chat_message list option"

definition getTemplateMessagesFromAttributes ::
  "('s, 'i, 't, 'z) module_imports \<Rightarrow> json \<Rightarrow> 's \<Rightarrow> 'i template_messages_result \<times> 's" where
  "getTemplateMessagesFromAttributes I parsedAttributes s =
     (case llmInputMessageSchema (schemas I) parsedAttributes of
        None \<Rightarrow>
          (\<lparr>messageParsingErrors = [INPUT_MESSAGES_PARSING_ERROR (constants I)],
            messages = None\<rparr>, s)
      | Some input_messages \<Rightarrow>
          (let (ms, s1) = processAttributeMessagesToChatMessage I input_messages s
           in (\<lparr>messageParsingErrors = [], messages = Some ms\<rparr>, s1)))"

text \<open>
  The result of \<^verbatim>\<open>getOutputFromAttributes\<close>, \<^verbatim>\<open>{ output, outputParsingErrors }\<close>; its
  first field is named \<open>extracted\<close> here, \<open>output\<close> being the field of the instance.
\<close>

record 'i output_result =
  extracted :: "'i playground_output"
  outputParsingErrors :: "string list"

definition getOutputFromAttributes ::
  "('s, 'i, 't, 'z) module_imports \<Rightarrow> json \<Rightarrow> 's \<Rightarrow> 'i output_result \<times> 's" where
  "getOutputFromAttributes I parsedAttributes s =
     (let outputParsingErrors0 = [] in
      case llmOutputMessageSchema (schemas I) parsedAttributes of
        Some output_messages \<Rightarrow>
          (let (ms, s1) = processAttributeMessagesToChatMessage I output_messages s
           in (\<lparr>extracted = OutputMessages ms,
                 outputParsingErrors = outputParsingErrors0\<rparr>, s1))
      | None \<Rightarrow>
          (let outputParsingErrors1 =
                 outputParsingErrors0 @ [OUTPUT_MESSAGES_PARSING_ERROR (constants I)] in
           case outputSchema (schemas I) parsedAttributes of
             Some v \<Rightarrow>
               (\<lparr>extracted = OutputString v,
                 outputParsingErrors = outputParsingErrors1\<rparr>, s)
           | None \<Rightarrow>
               (let outputParsingErrors2 =
                      outputParsingErrors1 @ [OUTPUT_VALUE_PARSING_ERROR (constants I)]
                in (\<lparr>extracted = OutputUndefined,
                      outputParsingErrors = outputParsingErrors2\<rparr>, s))))"

text \<open>
  \<^verbatim>\<open>modelName.includes(prefix)\<close>: the prefix occurs at the start of the name or somewhere
  in the rest of it.
\<close>

fun string_includes :: "string \<Rightarrow> string \<Rightarrow> bool" where
  "string_includes [] p = (p = [])"
| "string_includes (c # cs) p = (prefix p (c # cs) \<or> string_includes cs p)"

text \<open>
  The loop of \<^verbatim>\<open>getModelProviderFromModelName\<close> over the keys of the provider table,
  each key with the prefixes stored under it.
\<close>

fun getModelProvider_loop :: "(string \<times> string list) list \<Rightarrow> string \<Rightarrow> string option" where
  "getModelProvider_loop [] n = None"
| "getModelProvider_loop ((p, prefixes') # rest) n =
     (if list_ex (\<lambda>q. string_includes n q) prefixes' then Some p
      else getModelProvider_loop rest n)"

definition getModelProviderFromModelName :: "('s, 'i, 't, 'z) module_imports \<Rightarrow> string \<Rightarrow> string" where
  "getModelProviderFromModelName I n =
     (case getModelProvider_loop (modelProviderToModelPrefixMap (constants I)) n of
        Some p \<Rightarrow> p
      | None \<Rightarrow> DEFAULT_MODEL_PROVIDER (constants I))"

text \<open>
  The result of \<^verbatim>\<open>getModelConfigFromAttributes\<close>, \<^verbatim>\<open>{ modelConfig, parsingErrors }\<close>; its
  second field has the name that the transformer gives it when it takes the result apart.
\<close>

record model_config_result =
  modelConfig :: "model_config option"
  modelConfigParsingErrors :: "string list"

definition getModelConfigFromAttributes ::
  "('s, 'i, 't, 'z) module_imports \<Rightarrow> json \<Rightarrow> model_config_result" where
  "getModelConfigFromAttributes I parsedAttributes =
     (case modelNameSchema (schemas I) parsedAttributes of
        Some model_name \<Rightarrow>
          \<lparr>modelConfig =
              Some \<lparr>modelName = model_name,
                    provider = getModelProviderFromModelName I model_name\<rparr>,
            modelConfigParsingErrors = []\<rparr>
      | None \<Rightarrow>
          \<lparr>modelConfig = None,
            modelConfigParsingErrors = [MODEL_NAME_PARSING_ERROR (constants I)]\<rparr>)"

record ('i, 't, 'z) transform_result =
  playgroundInstance :: "('i, 't, 'z) playground_instance_scheme"
  parsingErrors :: "string list"

definition transformSpanAttributesToPlaygroundInstance ::
  "('s, 'i, 't, 'z) module_imports \<Rightarrow> 'y playground_span_scheme \<Rightarrow> 's
     \<Rightarrow> ('i, 't, 'z) transform_result \<times> 's" where
  "transformSpanAttributesToPlaygroundInstance I span' s =
     (let (basePlaygroundInstance, s0) = createPlaygroundInstance (store I) s;
          parsed = safelyParseJSON I (attributes span')
      in if parseError parsed \<noteq> None then
           (\<lparr>playgroundInstance = basePlaygroundInstance,
             parsingErrors = [SPAN_ATTRIBUTES_PARSING_ERROR (constants I)]\<rparr>, s0)
         else
           (let parsedAttributes = json parsed;
                (t, s1) = getTemplateMessagesFromAttributes I parsedAttributes s0;
                (out, s2) = getOutputFromAttributes I parsedAttributes s1;
                mc = getModelConfigFromAttributes I parsedAttributes
            in (\<lparr>playgroundInstance =
                   basePlaygroundInstance
                     \<lparr>model := (case modelConfig mc of
                                  Some c \<Rightarrow> c
                                | None \<Rightarrow> model basePlaygroundInstance),
                      template := (case messages t of
                                     Some ms \<Rightarrow> Chat ms
                                   | None \<Rightarrow> template basePlaygroundInstance),
                      output' := extracted out\<rparr>,
                 parsingErrors =
                   messageParsingErrors t @ outputParsingErrors out
                     @ modelConfigParsingErrors mc\<rparr>, s2)))"

section \<open>The schemas of the spec and a sample configuration\<close>

text \<open>
  Modelled from the spec: the schemas of \<^verbatim>\<open>./schemas\<close>, which are not part of the
  sources at hand. The spec gives their shapes:
  \<^verbatim>\<open>{ llm: { input_messages: Array<{ message: { role: string, content: string } }> } }\<close>,
  the same with \<^verbatim>\<open>output_messages\<close>, \<^verbatim>\<open>{ output: { value: string } }\<close> and
  \<^verbatim>\<open>{ llm: { model_name: string } }\<close>, and a role schema that accepts the members of the
  canonical role enumeration, which is a parameter here. \<open>property\<close> reads a property
  of an object; a value that is not an object has none.
\<close>

fun property :: "json \<Rightarrow> string \<Rightarrow> json option" where
  "property (JObject ps) k = map_of ps k"
| "property j k = None"

definition spec_messageSchema :: "json \<Rightarrow> message_schema option" where
  "spec_messageSchema j =
     (case property j ''message'' of
        Some m \<Rightarrow>
          (case (property m ''role'', property m ''content'') of
             (Some (JString r), Some (JString c)) \<Rightarrow>
               Some \<lparr>message = \<lparr>role = r, content = c\<rparr>\<rparr>
           | _ \<Rightarrow> None)
      | None \<Rightarrow> None)"

fun spec_messageArray :: "json list \<Rightarrow> message_schema list option" where
  "spec_messageArray [] = Some []"
| "spec_messageArray (j # js) =
     (case spec_messageSchema j of
        None \<Rightarrow> None
      | Some m \<Rightarrow> map_option ((#) m) (spec_messageArray js))"

definition spec_llmMessages :: "string \<Rightarrow> json \<Rightarrow> message_schema list option" where
  "spec_llmMessages key j =
     (case property j ''llm'' of
        Some l \<Rightarrow>
          (case property l key of
             Some (JArray xs) \<Rightarrow> spec_messageArray xs
           | _ \<Rightarrow> None)
      | None \<Rightarrow> None)"

definition spec_nestedString :: "string \<Rightarrow> string \<Rightarrow> json \<Rightarrow> string option" where
  "spec_nestedString outer inner j =
     (case property j outer of
        Some l \<Rightarrow>
          (case property l inner of
             Some (JString v) \<Rightarrow> Some v
           | _ \<Rightarrow> None)
      | None \<Rightarrow> None)"

definition spec_roleSchema :: "string list \<Rightarrow> json \<Rightarrow> bool" where
  "spec_roleSchema roles j = (case j of JString r \<Rightarrow> r \<in> set roles | _ \<Rightarrow> False)"

definition spec_schemas :: "string list \<Rightarrow> schemas" where
  "spec_schemas roles =
     \<lparr>chatMessageRolesSchema = spec_roleSchema roles,
      llmInputMessageSchema = spec_llmMessages ''input_messages'',
      llmOutputMessageSchema = spec_llmMessages ''output_messages'',
      outputSchema = spec_nestedString ''output'' ''value'',
      modelNameSchema = spec_nestedString ''llm'' ''model_name''\<rparr>"

text \<open>
  Modelled from the spec: a sample configuration, for evaluating the functions on
  concrete inputs. The spec names the two tables, the defaults and the five error tags
  but not their contents, so the contents below are sample values in the shape the spec
  describes. The sample store counts: an identifier is the value of the counter.
  The sample parser knows the texts of a table and fails on every other text.
\<close>

definition sample_constants :: constants where
  "sample_constants =
     \<lparr>ChatRoleMap =
        [(''user'', [''user'', ''human'']),
         (''ai'', [''assistant'', ''bot'', ''ai'']),
         (''system'', [''system'']),
         (''tool'', [''tool''])],
      modelProviderToModelPrefixMap =
        [(''AZURE_OPENAI'', []),
         (''ANTHROPIC'', [''claude'']),
         (''OPENAI'', [''gpt'', ''o1''])],
      DEFAULT_CHAT_ROLE = ''user'',
      DEFAULT_MODEL_PROVIDER = ''OPENAI'',
      INPUT_MESSAGES_PARSING_ERROR = ''input messages'',
      MODEL_NAME_PARSING_ERROR = ''model name'',
      OUTPUT_MESSAGES_PARSING_ERROR = ''output messages'',
      OUTPUT_VALUE_PARSING_ERROR = ''output value'',
      SPAN_ATTRIBUTES_PARSING_ERROR = ''span attributes''\<rparr>"

definition sample_store :: "(nat, nat, unit, unit) store" where
  "sample_store =
     \<lparr>createPlaygroundInstance =
        (\<lambda>s. (\<lparr>model = \<lparr>modelName = ''base-model'', provider = ''BASE''\<rparr>,
                template = Chat [\<lparr>chat_id = s, chat_role = ''system'', chat_content = ''base''\<rparr>],
                output' = OutputString ''base''\<rparr>, Suc s)),
      generateMessageId = (\<lambda>s. (s, Suc s))\<rparr>"

definition table_parser :: "(string \<times> json) list \<Rightarrow> string \<Rightarrow> json_parse_result" where
  "table_parser known a =
     (case map_of known a of
        Some j \<Rightarrow> \<lparr>json = j, parseError = None\<rparr>
      | None \<Rightarrow> \<lparr>json = JNull, parseError = Some (JsError a)\<rparr>)"

definition sample_imports :: "(string \<times> json) list \<Rightarrow> (nat, nat, unit, unit) module_imports" where
  "sample_imports known =
     \<lparr>constants = sample_constants,
      schemas = spec_schemas [''user'', ''ai'', ''system'', ''tool''],
      store = sample_store,
      safelyParseJSON = table_parser known\<rparr>"

definition sample_attributes :: json where
  "sample_attributes =
     JObject
       [(''llm'', JObject
          [(''model_name'', JString ''my-gpt-4''),
           (''input_messages'', JArray
              [JObject [(''message'', JObject [(''role'', JString ''human''), (''content'', JString ''hi'')])],
               JObject [(''message'', JObject [(''role'', JString ''robot''), (''content'', JString ''??'')])]]),
           (''output_messages'', JArray
              [JObject [(''message'', JObject [(''role'', JString ''assistant''), (''content'', JString ''hello'')])]])]),
        (''output'', JObject [(''value'', JString ''42'')])]"


definition sample_partial_attributes :: json where
  "sample_partial_attributes =
     JObject
       [(''llm'', JObject
          [(''input_messages'', JArray
              [JObject [(''message'', JObject [(''role'', JString ''human''), (''content'', JString ''hi'')])],
               JObject [(''message'', JObject [(''role'', JString ''robot''), (''content'', JString ''??'')])]])]),
        (''output'', JObject [(''value'', JString ''42'')])]"


section \<open>Notions used in the statements\<close>

text \<open>
  The identifiers of \<open>n\<close> successive calls of a generator \<open>g\<close> from the state \<open>s\<close>,
  with the state after the last call.
\<close>

fun generateMessageIds :: "('s \<Rightarrow> 'i \<times> 's) \<Rightarrow> nat \<Rightarrow> 's \<Rightarrow> 'i list \<times> 's" where
  "generateMessageIds g 0 s = ([], s)"
| "generateMessageIds g (Suc n) s =
     (let (i, s1) = g s; (is, s2) = generateMessageIds g n s1 in (i # is, s2))"

text \<open>
  A role table is unambiguous when an accepted value is listed under one role only, and
  a canonical role is listed under no role but itself.
\<close>

definition alias_lists_unambiguous :: "('s, 'i, 't, 'z) module_imports \<Rightarrow> bool" where
  "alias_lists_unambiguous I \<longleftrightarrow>
     (\<forall>(c, vs)\<in>set (ChatRoleMap (constants I)). \<forall>r\<in>set vs.
        (\<forall>(c', vs')\<in>set (ChatRoleMap (constants I)). r \<in> set vs' \<longrightarrow> c' = c)
        \<and> (isChatMessageRole I (JString r) \<longrightarrow> r = c))"

section \<open>The role normaliser\<close>

lemma getChatRole_loop_None:
  "getChatRole_loop m r = None \<longleftrightarrow> (\<forall>(c, vs)\<in>set m. r \<notin> set vs)"
  by (induction m r rule: getChatRole_loop.induct) auto

lemma getChatRole_loop_Some:
  "getChatRole_loop m r = Some c \<Longrightarrow> \<exists>vs. (c, vs) \<in> set m \<and> r \<in> set vs"
  by (induction m r rule: getChatRole_loop.induct) (auto split: if_splits)

lemma getChatRole_loop_unique:
  assumes "(c, vs) \<in> set m" and "r \<in> set vs"
    and "\<forall>(c', vs')\<in>set m. r \<in> set vs' \<longrightarrow> c' = c"
  shows "getChatRole_loop m r = Some c"
proof (cases "getChatRole_loop m r")
  case None
  with assms(1,2) show ?thesis
    by (auto simp: getChatRole_loop_None)
next
  case (Some d)
  then obtain ws where "(d, ws) \<in> set m" and "r \<in> set ws"
    using getChatRole_loop_Some by blast
  with assms(3) have "d = c" by blast
  with Some show ?thesis by simp
qed

text \<open>
  Claim C9. A canonical role is a string that the role schema accepts. On every canonical
  role \<open>r\<close>, \<^verbatim>\<open>getChatRole(r)\<close> is \<open>r\<close> itself, so that normalising twice gives what
  normalising once gives.
\<close>

theorem getChatRole_canonical:
  "isChatMessageRole I (JString r) \<Longrightarrow>
     getChatRole I r = r \<and> getChatRole I (getChatRole I r) = getChatRole I r"
  by (simp add: getChatRole_def)


lemma getChatRole_unambiguous_table:
  assumes u: "alias_lists_unambiguous I"
    and in_map: "(c, vs) \<in> set (ChatRoleMap (constants I))" and in_vs: "r \<in> set vs"
  shows "getChatRole I r = c"
proof -
  from u in_map in_vs
  have one: "\<forall>(c', vs')\<in>set (ChatRoleMap (constants I)). r \<in> set vs' \<longrightarrow> c' = c"
    and canon: "isChatMessageRole I (JString r) \<longrightarrow> r = c"
    unfolding alias_lists_unambiguous_def by blast+
  have "getChatRole_loop (ChatRoleMap (constants I)) r = Some c"
    using in_map in_vs one by (rule getChatRole_loop_unique)
  with canon show ?thesis
    by (simp add: getChatRole_def)
qed


lemma sample_roles:
  "isChatMessageRole (sample_imports k) (JString r) \<longleftrightarrow> r \<in> {''user'', ''ai'', ''system'', ''tool''}"
  by (simp add: isChatMessageRole_def sample_imports_def spec_schemas_def spec_roleSchema_def)

lemma sample_ChatRoleMap:
  "ChatRoleMap (constants (sample_imports k)) =
     [(''user'', [''user'', ''human'']),
      (''ai'', [''assistant'', ''bot'', ''ai'']),
      (''system'', [''system'']),
      (''tool'', [''tool''])]"
  by (simp add: sample_imports_def sample_constants_def)

lemma sample_unambiguous: "alias_lists_unambiguous (sample_imports k)"
  by (simp add: alias_lists_unambiguous_def sample_roles sample_ChatRoleMap)

theorem getChatRole_canonical_witness:
  "isChatMessageRole (sample_imports []) (JString ''ai'')
   \<and> getChatRole (sample_imports []) ''ai'' = ''ai''"
  using getChatRole_canonical [of "sample_imports []" "''ai''"]
  by (simp add: sample_roles)





section \<open>The provider inferencer\<close>

lemma string_includes_sublist: "string_includes n p \<longleftrightarrow> (\<exists>u v. n = u @ p @ v)"
proof -
  have "string_includes n p \<longleftrightarrow> sublist p n"
    by (induction n) (simp_all add: sublist_Cons_right)
  then show ?thesis by (simp add: sublist_def)
qed

lemma getModelProvider_loop_find:
  "getModelProvider_loop m n =
     map_option fst (find (\<lambda>(p, ps). \<exists>q\<in>set ps. \<exists>u v. n = u @ q @ v) m)"
  by (induction m n rule: getModelProvider_loop.induct)
     (simp_all add: list_ex_iff string_includes_sublist)

text \<open>
  Claim C8. For every model name, \<^verbatim>\<open>getModelProviderFromModelName\<close> returns the provider
  of the first entry of the provider table, in key order, one of whose prefixes occurs
  somewhere in the name, at its start or not; when no entry has such a prefix, it returns
  the default provider. It returns on every name.
\<close>

theorem getModelProviderFromModelName_first_match:
  "getModelProviderFromModelName I n =
     (case find (\<lambda>(p, ps). \<exists>q\<in>set ps. \<exists>u v. n = u @ q @ v)
             (modelProviderToModelPrefixMap (constants I)) of
        Some (p, ps) \<Rightarrow> p
      | None \<Rightarrow> DEFAULT_MODEL_PROVIDER (constants I))"
  by (simp add: getModelProviderFromModelName_def getModelProvider_loop_find
        split: option.splits prod.splits)

lemma sample_provider_map:
  "modelProviderToModelPrefixMap (constants (sample_imports k)) =
     [(''AZURE_OPENAI'', []), (''ANTHROPIC'', [''claude'']), (''OPENAI'', [''gpt'', ''o1''])]"
  "DEFAULT_MODEL_PROVIDER (constants (sample_imports k)) = ''OPENAI''"
  by (simp_all add: sample_imports_def sample_constants_def)

theorem getModelProviderFromModelName_first_match_witness:
  "getModelProviderFromModelName (sample_imports []) ''x-claude-3'' = ''ANTHROPIC''
   \<and> find (\<lambda>(p, ps). \<exists>q\<in>set ps. \<exists>u v. ''x-claude-3'' = u @ q @ v)
        (modelProviderToModelPrefixMap (constants (sample_imports [])))
      = Some (''ANTHROPIC'', [''claude''])"
proof -
  have l: "getModelProviderFromModelName (sample_imports []) ''x-claude-3'' = ''ANTHROPIC''"
    by (simp add: getModelProviderFromModelName_def sample_provider_map)
  have "\<exists>u v. ''x-claude-3'' = u @ ''claude'' @ v"
    using string_includes_sublist [of "''x-claude-3''" "''claude''"] by simp
  then have r: "find (\<lambda>(p, ps). \<exists>q\<in>set ps. \<exists>u v. ''x-claude-3'' = u @ q @ v)
        (modelProviderToModelPrefixMap (constants (sample_imports [])))
      = Some (''ANTHROPIC'', [''claude''])"
    by (simp add: sample_provider_map)
  from l r getModelProviderFromModelName_first_match [of "sample_imports []" "''x-claude-3''"]
  show ?thesis by simp
qed


section \<open>The extractors\<close>

lemma process_length:
  "processAttributeMessagesToChatMessage I ms s = (cs, s') \<Longrightarrow> length cs = length ms"
  by (induction ms arbitrary: s cs s') (auto split: prod.splits)

lemma process_nth:
  "processAttributeMessagesToChatMessage I ms s = (cs, s') \<Longrightarrow> k < length ms \<Longrightarrow>
     chat_content (cs ! k) = content (message (ms ! k))
     \<and> chat_role (cs ! k) = getChatRole I (role (message (ms ! k)))"
proof (induction ms arbitrary: s cs s' k)
  case Nil
  then show ?case by simp
next
  case (Cons m ms)
  then show ?case
    by (cases k) (auto split: prod.splits)
qed

lemma process_ids:
  "processAttributeMessagesToChatMessage I ms s = (cs, s') \<Longrightarrow>
     generateMessageIds (generateMessageId (store I)) (length ms) s = (map chat_id cs, s')"
  by (induction ms arbitrary: s cs s') (auto split: prod.splits)

text \<open>
  Claim C6. When the schema of the input messages accepts the attributes, the extractor
  returns no error and one chat message for each entry, in the order of the entries: the
  content is the entry's content, the role is the entry's role normalised, and the
  identifiers are those of as many successive calls of the generator. When the schema
  rejects the attributes, the extractor returns no messages, the single tag of the input
  messages, and calls the generator not once.
\<close>

theorem getTemplateMessagesFromAttributes_all_or_nothing:
  "(\<forall>ms. llmInputMessageSchema (schemas I) a = Some ms \<longrightarrow>
      (\<exists>cs s'. getTemplateMessagesFromAttributes I a s
                 = (\<lparr>messageParsingErrors = [], messages = Some cs\<rparr>, s')
         \<and> length cs = length ms
         \<and> (\<forall>k<length ms.
               chat_content (cs ! k) = content (message (ms ! k))
               \<and> chat_role (cs ! k) = getChatRole I (role (message (ms ! k))))
         \<and> generateMessageIds (generateMessageId (store I)) (length ms) s
             = (map chat_id cs, s')))
   \<and> (llmInputMessageSchema (schemas I) a = None \<longrightarrow>
        getTemplateMessagesFromAttributes I a s
          = (\<lparr>messageParsingErrors = [INPUT_MESSAGES_PARSING_ERROR (constants I)],
               messages = None\<rparr>, s))"
proof (intro conjI allI impI)
  fix ms
  assume ok: "llmInputMessageSchema (schemas I) a = Some ms"
  obtain cs s' where p: "processAttributeMessagesToChatMessage I ms s = (cs, s')"
    by (cases "processAttributeMessagesToChatMessage I ms s")
  have "getTemplateMessagesFromAttributes I a s
          = (\<lparr>messageParsingErrors = [], messages = Some cs\<rparr>, s')"
    using ok p by (simp add: getTemplateMessagesFromAttributes_def)
  moreover have "length cs = length ms"
    using p by (rule process_length)
  moreover have "\<forall>k<length ms.
               chat_content (cs ! k) = content (message (ms ! k))
               \<and> chat_role (cs ! k) = getChatRole I (role (message (ms ! k)))"
    using p by (blast dest: process_nth)
  moreover have "generateMessageIds (generateMessageId (store I)) (length ms) s
             = (map chat_id cs, s')"
    using p by (rule process_ids)
  ultimately show "\<exists>cs s'. getTemplateMessagesFromAttributes I a s
                 = (\<lparr>messageParsingErrors = [], messages = Some cs\<rparr>, s')
         \<and> length cs = length ms
         \<and> (\<forall>k<length ms.
               chat_content (cs ! k) = content (message (ms ! k))
               \<and> chat_role (cs ! k) = getChatRole I (role (message (ms ! k))))
         \<and> generateMessageIds (generateMessageId (store I)) (length ms) s
             = (map chat_id cs, s')"
    by blast
next
  assume "llmInputMessageSchema (schemas I) a = None"
  then show "getTemplateMessagesFromAttributes I a s
          = (\<lparr>messageParsingErrors = [INPUT_MESSAGES_PARSING_ERROR (constants I)],
               messages = None\<rparr>, s)"
    by (simp add: getTemplateMessagesFromAttributes_def)
qed

text \<open>
  Claim C3. When the schema of the output messages rejects the attributes and the schema
  of the output value accepts them, the output is the string of the output value and the
  errors are the tag of the output messages alone.
\<close>

theorem getOutputFromAttributes_second_tier:
  "llmOutputMessageSchema (schemas I) a = None \<Longrightarrow> outputSchema (schemas I) a = Some v \<Longrightarrow>
     getOutputFromAttributes I a s
       = (\<lparr>extracted = OutputString v,
            outputParsingErrors = [OUTPUT_MESSAGES_PARSING_ERROR (constants I)]\<rparr>, s)"
  by (simp add: getOutputFromAttributes_def)

text \<open>
  Claim C10. The result of the output extractor has one of three shapes: a list of
  messages with no error, a string with the tag of the output messages, or
  \<^verbatim>\<open>undefined\<close> with the tag of the output messages followed by the tag of the output
  value. The list of errors tells which shape it is.
\<close>

theorem getOutputFromAttributes_shapes:
  "getOutputFromAttributes I a s = (r, s') \<Longrightarrow>
     (((\<exists>ms. extracted r = OutputMessages ms) \<and> outputParsingErrors r = [])
      \<or> ((\<exists>v. extracted r = OutputString v)
          \<and> outputParsingErrors r = [OUTPUT_MESSAGES_PARSING_ERROR (constants I)])
      \<or> (extracted r = OutputUndefined
          \<and> outputParsingErrors r = [OUTPUT_MESSAGES_PARSING_ERROR (constants I),
                                      OUTPUT_VALUE_PARSING_ERROR (constants I)]))
     \<and> ((\<exists>ms. extracted r = OutputMessages ms) \<longleftrightarrow> outputParsingErrors r = [])
     \<and> ((\<exists>v. extracted r = OutputString v)
          \<longleftrightarrow> outputParsingErrors r = [OUTPUT_MESSAGES_PARSING_ERROR (constants I)])
     \<and> (extracted r = OutputUndefined
          \<longleftrightarrow> outputParsingErrors r = [OUTPUT_MESSAGES_PARSING_ERROR (constants I),
                                        OUTPUT_VALUE_PARSING_ERROR (constants I)])"
  by (auto simp: getOutputFromAttributes_def Let_def split: option.splits prod.splits)


section \<open>The instance transformer\<close>

lemma transform_parsed:
  assumes "parseError (safelyParseJSON I (attributes sp)) = None"
    and "createPlaygroundInstance (store I) s = (base, s0)"
    and "getTemplateMessagesFromAttributes I (json (safelyParseJSON I (attributes sp))) s0 = (t, s1)"
    and "getOutputFromAttributes I (json (safelyParseJSON I (attributes sp))) s1 = (out, s2)"
  shows "transformSpanAttributesToPlaygroundInstance I sp s =
     (\<lparr>playgroundInstance =
         base\<lparr>model := (case modelConfig (getModelConfigFromAttributes I
                                  (json (safelyParseJSON I (attributes sp)))) of
                          Some c \<Rightarrow> c | None \<Rightarrow> model base),
              template := (case messages t of
                             Some ms \<Rightarrow> Chat ms | None \<Rightarrow> template base),
              output' := extracted out\<rparr>,
       parsingErrors =
         messageParsingErrors t @ outputParsingErrors out
           @ modelConfigParsingErrors (getModelConfigFromAttributes I
               (json (safelyParseJSON I (attributes sp))))\<rparr>, s2)"
  using assms by (simp add: transformSpanAttributesToPlaygroundInstance_def Let_def)

text \<open>
  Claim C1. When the attributes of the span fail to parse, the transformer returns the
  instance of \<^verbatim>\<open>createPlaygroundInstance\<close> as it is, with the tag of the span attributes
  as the only error, and leaves the store in the state in which
  \<^verbatim>\<open>createPlaygroundInstance\<close> left it. No extractor runs: whatever schemas and whatever
  generator of identifiers are put in place, the result is the same.
\<close>

theorem transform_parse_failure:
  "parseError (safelyParseJSON I (attributes sp)) \<noteq> None \<Longrightarrow>
     transformSpanAttributesToPlaygroundInstance I sp s =
       (\<lparr>playgroundInstance = fst (createPlaygroundInstance (store I) s),
          parsingErrors = [SPAN_ATTRIBUTES_PARSING_ERROR (constants I)]\<rparr>,
        snd (createPlaygroundInstance (store I) s))
     \<and> transformSpanAttributesToPlaygroundInstance
          (I\<lparr>schemas := Z, store := (store I)\<lparr>generateMessageId := g\<rparr>\<rparr>) sp s
        = transformSpanAttributesToPlaygroundInstance I sp s"
  by (auto simp: transformSpanAttributesToPlaygroundInstance_def Let_def split: prod.splits)

text \<open>
  Claim C2. When the attributes parse, the model of the result is the extracted model
  configuration if there is one and the model of the baseline otherwise; the template is
  the chat template of the extracted messages if there are any and the template of the
  baseline otherwise; the output is what the output extractor returned; and every other
  field is the field of the baseline.
\<close>

theorem transform_merge:
  assumes "parseError (safelyParseJSON I (attributes sp)) = None"
    and "createPlaygroundInstance (store I) s = (base, s0)"
    and "getTemplateMessagesFromAttributes I (json (safelyParseJSON I (attributes sp))) s0 = (t, s1)"
    and "getOutputFromAttributes I (json (safelyParseJSON I (attributes sp))) s1 = (out, s2)"
    and "getModelConfigFromAttributes I (json (safelyParseJSON I (attributes sp))) = mc"
    and "playgroundInstance (fst (transformSpanAttributesToPlaygroundInstance I sp s)) = p"
  shows "(\<forall>c. modelConfig mc = Some c \<longrightarrow> model p = c)
     \<and> (modelConfig mc = None \<longrightarrow> model p = model base)
     \<and> (\<forall>ms. messages t = Some ms \<longrightarrow> template p = Chat ms)
     \<and> (messages t = None \<longrightarrow> template p = template base)
     \<and> output' p = extracted out
     \<and> playground_instance.more p = playground_instance.more base"
proof -
  have "p = base\<lparr>model := (case modelConfig mc of Some c \<Rightarrow> c | None \<Rightarrow> model base),
              template := (case messages t of
                             Some ms \<Rightarrow> Chat ms | None \<Rightarrow> template base),
              output' := extracted out\<rparr>"
    using transform_parsed [OF assms(1-4)] assms(5,6) by simp
  then show ?thesis by simp
qed

text \<open>
  Claim C4. When the attributes parse, the errors of the transformer are the errors of
  the input messages, then those of the output, then those of the model configuration.
\<close>

theorem transform_error_order:
  assumes "parseError (safelyParseJSON I (attributes sp)) = None"
    and "createPlaygroundInstance (store I) s = (base, s0)"
    and "getTemplateMessagesFromAttributes I (json (safelyParseJSON I (attributes sp))) s0 = (t, s1)"
    and "getOutputFromAttributes I (json (safelyParseJSON I (attributes sp))) s1 = (out, s2)"
    and "getModelConfigFromAttributes I (json (safelyParseJSON I (attributes sp))) = mc"
  shows "parsingErrors (fst (transformSpanAttributesToPlaygroundInstance I sp s))
     = messageParsingErrors t @ outputParsingErrors out @ modelConfigParsingErrors mc"
  using transform_parsed [OF assms(1-4)] assms(5) by simp

lemma spec_schemas_empty_object:
  "llmInputMessageSchema (spec_schemas roles) (JObject []) = None"
  "llmOutputMessageSchema (spec_schemas roles) (JObject []) = None"
  "outputSchema (spec_schemas roles) (JObject []) = None"
  "modelNameSchema (spec_schemas roles) (JObject []) = None"
  by (simp_all add: spec_schemas_def spec_llmMessages_def spec_nestedString_def)

text \<open>
  Claim C5. With the schemas of the spec, when the attributes parse to the empty object
  the three extractors fail, the errors are the tag of the input messages, the two tags
  of the output and the tag of the model name, in this order, and the instance is the
  baseline with its output set to \<^verbatim>\<open>undefined\<close>.
\<close>

theorem transform_empty_object:
  assumes "safelyParseJSON I (attributes sp) = \<lparr>json = JObject [], parseError = None\<rparr>"
    and "schemas I = spec_schemas roles"
    and "createPlaygroundInstance (store I) s = (base, s0)"
  shows "transformSpanAttributesToPlaygroundInstance I sp s =
       (\<lparr>playgroundInstance = base\<lparr>output' := OutputUndefined\<rparr>,
          parsingErrors =
            [INPUT_MESSAGES_PARSING_ERROR (constants I),
             OUTPUT_MESSAGES_PARSING_ERROR (constants I),
             OUTPUT_VALUE_PARSING_ERROR (constants I),
             MODEL_NAME_PARSING_ERROR (constants I)]\<rparr>, s0)
     \<and> messages (fst (getTemplateMessagesFromAttributes I (JObject []) s0)) = None
     \<and> extracted (fst (getOutputFromAttributes I (JObject []) s0)) = OutputUndefined
     \<and> modelConfig (getModelConfigFromAttributes I (JObject [])) = None"
proof -
  have t: "getTemplateMessagesFromAttributes I (JObject []) s0
      = (\<lparr>messageParsingErrors = [INPUT_MESSAGES_PARSING_ERROR (constants I)],
           messages = None\<rparr>, s0)"
    by (simp add: getTemplateMessagesFromAttributes_def assms(2) spec_schemas_empty_object)
  have out: "getOutputFromAttributes I (JObject []) s0
      = (\<lparr>extracted = OutputUndefined,
           outputParsingErrors = [OUTPUT_MESSAGES_PARSING_ERROR (constants I),
                                  OUTPUT_VALUE_PARSING_ERROR (constants I)]\<rparr>, s0)"
    by (simp add: getOutputFromAttributes_def assms(2) spec_schemas_empty_object)
  have mc: "getModelConfigFromAttributes I (JObject [])
      = \<lparr>modelConfig = None,
          modelConfigParsingErrors = [MODEL_NAME_PARSING_ERROR (constants I)]\<rparr>"
    by (simp add: getModelConfigFromAttributes_def assms(2) spec_schemas_empty_object)
  have "transformSpanAttributesToPlaygroundInstance I sp s =
       (\<lparr>playgroundInstance = base\<lparr>output' := OutputUndefined\<rparr>,
          parsingErrors =
            [INPUT_MESSAGES_PARSING_ERROR (constants I),
             OUTPUT_MESSAGES_PARSING_ERROR (constants I),
             OUTPUT_VALUE_PARSING_ERROR (constants I),
             MODEL_NAME_PARSING_ERROR (constants I)]\<rparr>, s0)"
    using assms(1,3) t out mc
    by (simp add: transformSpanAttributesToPlaygroundInstance_def)
  with t out mc show ?thesis by simp
qed


section \<open>The functions on the sample configuration\<close>

lemmas sample_simps =
  sample_imports_def sample_constants_def sample_store_def table_parser_def
  sample_attributes_def sample_partial_attributes_def
  spec_schemas_def spec_llmMessages_def spec_messageSchema_def spec_nestedString_def
  spec_roleSchema_def

lemmas source_simps =
  transformSpanAttributesToPlaygroundInstance_def getTemplateMessagesFromAttributes_def
  getOutputFromAttributes_def getModelConfigFromAttributes_def
  getModelProviderFromModelName_def getChatRole_def isChatMessageRole_def

theorem transform_parse_failure_witness:
  "parseError (safelyParseJSON (sample_imports [(''{}'', JObject [])])
       (attributes \<lparr>attributes = ''{bad''\<rparr>)) \<noteq> None
   \<and> transformSpanAttributesToPlaygroundInstance (sample_imports [(''{}'', JObject [])])
        \<lparr>attributes = ''{bad''\<rparr> 7 =
       (\<lparr>playgroundInstance =
           \<lparr>model = \<lparr>modelName = ''base-model'', provider = ''BASE''\<rparr>,
            template = Chat [\<lparr>chat_id = 7, chat_role = ''system'', chat_content = ''base''\<rparr>],
            output' = OutputString ''base''\<rparr>,
          parsingErrors = [''span attributes'']\<rparr>, 8)"
  using transform_parse_failure
    [of "sample_imports [(''{}'', JObject [])]" "\<lparr>attributes = ''{bad''\<rparr>" 7]
  by (simp add: sample_simps)

theorem getTemplateMessagesFromAttributes_all_or_nothing_witness:
  "llmInputMessageSchema (schemas (sample_imports [])) sample_attributes
     = Some [\<lparr>message = \<lparr>role = ''human'', content = ''hi''\<rparr>\<rparr>,
             \<lparr>message = \<lparr>role = ''robot'', content = ''??''\<rparr>\<rparr>]
   \<and> getTemplateMessagesFromAttributes (sample_imports []) sample_attributes 8
     = (\<lparr>messageParsingErrors = [],
          messages = Some [\<lparr>chat_id = 8, chat_role = ''user'', chat_content = ''hi''\<rparr>,
                           \<lparr>chat_id = 9, chat_role = ''user'', chat_content = ''??''\<rparr>]\<rparr>, 10)
   \<and> generateMessageIds (generateMessageId (store (sample_imports []))) 2 8 = ([8, 9], 10)
   \<and> llmInputMessageSchema (schemas (sample_imports [])) (JObject []) = None
   \<and> getTemplateMessagesFromAttributes (sample_imports []) (JObject []) 8
     = (\<lparr>messageParsingErrors = [''input messages''], messages = None\<rparr>, 8)"
  using getTemplateMessagesFromAttributes_all_or_nothing
    [of "sample_imports []" sample_attributes 8]
    getTemplateMessagesFromAttributes_all_or_nothing
    [of "sample_imports []" "JObject []" 8]
  by (simp add: sample_simps source_simps numeral_2_eq_2)

theorem getOutputFromAttributes_second_tier_witness:
  "llmOutputMessageSchema (schemas (sample_imports [])) sample_partial_attributes = None
   \<and> outputSchema (schemas (sample_imports [])) sample_partial_attributes = Some ''42''
   \<and> getOutputFromAttributes (sample_imports []) sample_partial_attributes 3
       = (\<lparr>extracted = OutputString ''42'', outputParsingErrors = [''output messages'']\<rparr>, 3)"
  using getOutputFromAttributes_second_tier
    [of "sample_imports []" sample_partial_attributes "''42''" 3]
  by (simp add: sample_simps)

theorem getOutputFromAttributes_shapes_witness:
  "getOutputFromAttributes (sample_imports []) (JObject []) 3
     = (\<lparr>extracted = OutputUndefined,
          outputParsingErrors = [''output messages'', ''output value'']\<rparr>, 3)
   \<and> OUTPUT_MESSAGES_PARSING_ERROR (constants (sample_imports [])) = ''output messages''
   \<and> OUTPUT_VALUE_PARSING_ERROR (constants (sample_imports [])) = ''output value''"
  using getOutputFromAttributes_shapes
    [of "sample_imports []" "JObject []" 3
        "\<lparr>extracted = OutputUndefined,
          outputParsingErrors = [''output messages'', ''output value'']\<rparr>" 3]
  by (simp add: sample_simps source_simps)

lemma sample_partial_run:
  "parseError (safelyParseJSON (sample_imports [(''A'', sample_partial_attributes)])
       (attributes \<lparr>attributes = ''A''\<rparr>)) = None"
  "createPlaygroundInstance (store (sample_imports [(''A'', sample_partial_attributes)])) 7
     = (\<lparr>model = \<lparr>modelName = ''base-model'', provider = ''BASE''\<rparr>,
         template = Chat [\<lparr>chat_id = 7, chat_role = ''system'', chat_content = ''base''\<rparr>],
         output' = OutputString ''base''\<rparr>, 8)"
  "getTemplateMessagesFromAttributes (sample_imports [(''A'', sample_partial_attributes)])
       (json (safelyParseJSON (sample_imports [(''A'', sample_partial_attributes)])
          (attributes \<lparr>attributes = ''A''\<rparr>))) 8
     = (\<lparr>messageParsingErrors = [],
          messages = Some [\<lparr>chat_id = 8, chat_role = ''user'', chat_content = ''hi''\<rparr>,
                           \<lparr>chat_id = 9, chat_role = ''user'', chat_content = ''??''\<rparr>]\<rparr>, 10)"
  "getOutputFromAttributes (sample_imports [(''A'', sample_partial_attributes)])
       (json (safelyParseJSON (sample_imports [(''A'', sample_partial_attributes)])
          (attributes \<lparr>attributes = ''A''\<rparr>))) 10
     = (\<lparr>extracted = OutputString ''42'', outputParsingErrors = [''output messages'']\<rparr>, 10)"
  "getModelConfigFromAttributes (sample_imports [(''A'', sample_partial_attributes)])
       (json (safelyParseJSON (sample_imports [(''A'', sample_partial_attributes)])
          (attributes \<lparr>attributes = ''A''\<rparr>)))
     = \<lparr>modelConfig = None, modelConfigParsingErrors = [''model name'']\<rparr>"
  by (simp_all add: sample_simps source_simps)

theorem transform_merge_witness:
  "parseError (safelyParseJSON (sample_imports [(''A'', sample_partial_attributes)])
       (attributes \<lparr>attributes = ''A''\<rparr>)) = None
   \<and> model (playgroundInstance (fst (transformSpanAttributesToPlaygroundInstance
        (sample_imports [(''A'', sample_partial_attributes)]) \<lparr>attributes = ''A''\<rparr> 7)))
     = \<lparr>modelName = ''base-model'', provider = ''BASE''\<rparr>
   \<and> template (playgroundInstance (fst (transformSpanAttributesToPlaygroundInstance
        (sample_imports [(''A'', sample_partial_attributes)]) \<lparr>attributes = ''A''\<rparr> 7)))
     = Chat [\<lparr>chat_id = 8, chat_role = ''user'', chat_content = ''hi''\<rparr>,
             \<lparr>chat_id = 9, chat_role = ''user'', chat_content = ''??''\<rparr>]
   \<and> output' (playgroundInstance (fst (transformSpanAttributesToPlaygroundInstance
        (sample_imports [(''A'', sample_partial_attributes)]) \<lparr>attributes = ''A''\<rparr> 7)))
     = OutputString ''42''
   \<and> playground_instance.more (playgroundInstance
        (fst (transformSpanAttributesToPlaygroundInstance
           (sample_imports [(''A'', sample_partial_attributes)]) \<lparr>attributes = ''A''\<rparr> 7)))
     = ()"
  using sample_partial_run(1)
    transform_merge [OF sample_partial_run refl]
  by simp

theorem transform_error_order_witness:
  "parseError (safelyParseJSON (sample_imports [(''A'', sample_partial_attributes)])
       (attributes \<lparr>attributes = ''A''\<rparr>)) = None
   \<and> parsingErrors (fst (transformSpanAttributesToPlaygroundInstance
        (sample_imports [(''A'', sample_partial_attributes)]) \<lparr>attributes = ''A''\<rparr> 7))
     = [''output messages'', ''model name'']"
  using sample_partial_run(1)
    transform_error_order [OF sample_partial_run]
  by simp

theorem transform_empty_object_witness:
  "safelyParseJSON (sample_imports [(''{}'', JObject [])]) (attributes \<lparr>attributes = ''{}''\<rparr>)
     = \<lparr>json = JObject [], parseError = None\<rparr>
   \<and> schemas (sample_imports [(''{}'', JObject [])])
     = spec_schemas [''user'', ''ai'', ''system'', ''tool'']
   \<and> transformSpanAttributesToPlaygroundInstance (sample_imports [(''{}'', JObject [])])
        \<lparr>attributes = ''{}''\<rparr> 7 =
       (\<lparr>playgroundInstance =
           \<lparr>model = \<lparr>modelName = ''base-model'', provider = ''BASE''\<rparr>,
            template = Chat [\<lparr>chat_id = 7, chat_role = ''system'', chat_content = ''base''\<rparr>],
            output' = OutputUndefined\<rparr>,
          parsingErrors =
            [''input messages'', ''output messages'', ''output value'', ''model name'']\<rparr>, 8)"
proof -
  have a: "safelyParseJSON (sample_imports [(''{}'', JObject [])])
        (attributes \<lparr>attributes = ''{}''\<rparr>) = \<lparr>json = JObject [], parseError = None\<rparr>"
    by (simp add: sample_imports_def table_parser_def)
  have b: "schemas (sample_imports [(''{}'', JObject [])])
     = spec_schemas [''user'', ''ai'', ''system'', ''tool'']"
    by (simp add: sample_imports_def)
  have c: "createPlaygroundInstance (store (sample_imports [(''{}'', JObject [])])) 7
     = (\<lparr>model = \<lparr>modelName = ''base-model'', provider = ''BASE''\<rparr>,
         template = Chat [\<lparr>chat_id = 7, chat_role = ''system'', chat_content = ''base''\<rparr>],
         output' = OutputString ''base''\<rparr>, 8)"
    by (simp add: sample_imports_def sample_store_def)
  show ?thesis
    using a b transform_empty_object [OF a b c]
    by (simp add: sample_imports_def sample_constants_def)
qed

end
